theory Spec2Isabelle
  imports Complex_Main "HOL-Library.Sublist"
begin

section \<open>JavaScript numbers\<close>

text \<open>
  The confidence is a JavaScript number: an IEEE 754 binary64 value. A finite double is
  modelled by the rational number it denotes, and every arithmetic operation rounds the
  exact result to the nearest double, ties to the even significand. The scores are at
  most 13, so all values of the classifier lie between 0.6 and 1.9: overflow to
  Infinity and NaN cannot arise and are not modelled.
\<close>

fun bits :: "nat \<Rightarrow> nat" where
  "bits n = (if n = 0 then 0 else Suc (bits (n div 2)))"

declare bits.simps [simp del]

definition pow2 :: "int \<Rightarrow> rat" where
  "pow2 e = (if 0 \<le> e then 2 ^ nat e else 1 / 2 ^ nat (- e))"

text \<open>The binary exponent of a positive rational: the \<open>e\<close> with \<open>2^e \<le> x < 2^(e+1)\<close>.\<close>

definition ilog2 :: "rat \<Rightarrow> int" where
  "ilog2 x = (if 1 \<le> x then int (bits (nat \<lfloor>x\<rfloor>)) - 1
              else - int (bits (nat (\<lceil>1 / x\<rceil> - 1))))"

definition round_half_even :: "rat \<Rightarrow> int" where
  "round_half_even x =
     (let f = \<lfloor>x\<rfloor>; r = x - of_int f
      in if r < 1 / 2 then f
         else if 1 / 2 < r then f + 1
         else if even f then f else f + 1)"

text \<open>
  Rounding to binary64: 53 significant bits, the exponent not below -1022 (below it the
  spacing of the subnormal numbers stays 2^-1074).
\<close>

definition double_of :: "rat \<Rightarrow> rat" where
  "double_of x =
     (if x = 0 then 0
      else let a = \<bar>x\<bar>;
               e = max (ilog2 a) (- 1022);
               q = pow2 (e - 52)
           in sgn x * of_int (round_half_even (a / q)) * q)"

definition dadd :: "rat \<Rightarrow> rat \<Rightarrow> rat" where
  "dadd x y = double_of (x + y)"

definition dmul :: "rat \<Rightarrow> rat \<Rightarrow> rat" where
  "dmul x y = double_of (x * y)"

text \<open>\<open>Math.min\<close> of two finite doubles is exact.\<close>

definition Math_min :: "rat \<Rightarrow> rat \<Rightarrow> rat" where
  "Math_min x y = min x y"

section \<open>JavaScript strings\<close>

text \<open>
  A text is a \<open>string\<close>, one \<open>char\<close> per code unit. \<open>toLowerCase\<close> maps the
  letters A to Z to a to z and leaves every other code unit as it is: the model covers
  ASCII text, where this is what \<open>String.prototype.toLowerCase\<close> does.
\<close>

definition toLowerChar :: "char \<Rightarrow> char" where
  "toLowerChar c =
     (let n = (of_char c :: nat)
      in if 65 \<le> n \<and> n \<le> 90 then char_of (n + 32) else c)"

definition toLowerCase :: "string \<Rightarrow> string" where
  "toLowerCase text = map toLowerChar text"

text \<open>\<open>s.includes(w)\<close>: \<open>w\<close> occurs in \<open>s\<close> at some position.\<close>

fun String_includes :: "string \<Rightarrow> string \<Rightarrow> bool" where
  "String_includes [] w = (w = [])"
| "String_includes (c # cs) w = (prefix w (c # cs) \<or> String_includes cs w)"

text \<open>
  For stating what matching does without \<open>toLowerCase\<close>: two code units are the same up
  to case when they are equal or one is a letter A to Z and the other the small letter
  32 code points above it.
\<close>

definition same_ignoring_case :: "char \<Rightarrow> char \<Rightarrow> bool" where
  "same_ignoring_case c d =
     (c = d
      \<or> (65 \<le> (of_char c :: nat) \<and> (of_char c :: nat) \<le> 90 \<and> (of_char d :: nat) = of_char c + 32)
      \<or> (65 \<le> (of_char d :: nat) \<and> (of_char d :: nat) \<le> 90 \<and> (of_char c :: nat) = of_char d + 32))"

section \<open>The classifier\<close>

datatype sentiment = positive | negative | neutral

record analysis =
  sentiment :: sentiment
  confidence :: rat

definition positiveWords :: "string list" where
  "positiveWords = [''good'', ''great'', ''excellent'', ''amazing'', ''love'', ''awesome'',
     ''fantastic'', ''wonderful'', ''perfect'', ''best'', ''happy'', ''satisfied'', ''pleased'']"

definition negativeWords :: "string list" where
  "negativeWords = [''bad'', ''terrible'', ''awful'', ''hate'', ''worst'', ''horrible'',
     ''disappointing'', ''poor'', ''angry'', ''frustrated'', ''upset'']"

text \<open>
  The two \<open>forEach\<close> calls: the score starts at 0 and goes up by one for each word of
  the list that the lower-cased text includes.
\<close>

fun forEach_score :: "string \<Rightarrow> string list \<Rightarrow> nat \<Rightarrow> nat" where
  "forEach_score lowerText [] score = score"
| "forEach_score lowerText (word # words) score =
     forEach_score lowerText words (if String_includes lowerText word then score + 1 else score)"

definition positiveScore :: "string \<Rightarrow> nat" where
  "positiveScore text = forEach_score (toLowerCase text) positiveWords 0"

definition negativeScore :: "string \<Rightarrow> nat" where
  "negativeScore text = forEach_score (toLowerCase text) negativeWords 0"

definition analyzeSentiment :: "string \<Rightarrow> analysis" where
  "analyzeSentiment text =
     (if positiveScore text > negativeScore text then
        \<lparr>sentiment = positive,
         confidence = Math_min (double_of (95 / 100))
           (dadd (double_of (6 / 10)) (dmul (of_nat (positiveScore text)) (double_of (1 / 10))))\<rparr>
      else if negativeScore text > positiveScore text then
        \<lparr>sentiment = negative,
         confidence = Math_min (double_of (95 / 100))
           (dadd (double_of (6 / 10)) (dmul (of_nat (negativeScore text)) (double_of (1 / 10))))\<rparr>
      else
        \<lparr>sentiment = neutral, confidence = double_of (7 / 10)\<rparr>)"

section \<open>The request handler\<close>

text \<open>
  The body of a request as \<open>req.json()\<close> parses it. An object is its list of members
  in the order of the text; of two members with one name the later one counts.
\<close>

datatype json =
  JNull
  | JBool bool
  | JNumber rat
  | JString string
  | JArray "json list"
  | JObject "(string \<times> json) list"

record request =
  req_method :: string
  req_json :: "json option"  \<comment> \<open>\<open>None\<close>: the body is not JSON and \<open>req.json()\<close> throws\<close>

text \<open>
  \<open>const { feedback_text } = ...\<close>: destructuring \<open>null\<close> throws a TypeError (the outer
  \<open>None\<close>); an object gives its member, or \<open>undefined\<close> (the inner \<open>None\<close>) without one;
  any other value has no such property.
\<close>

fun destructure_feedback_text :: "json \<Rightarrow> json option option" where
  "destructure_feedback_text JNull = None"
| "destructure_feedback_text (JObject members) = Some (map_of (rev members) ''feedback_text'')"
| "destructure_feedback_text _ = Some None"

text \<open>
  For stating what a request carries without the handler's own steps: the text field of
  a request body, if the body is a JSON object that has one. No other body has the field.
\<close>

fun body_text_field :: "json option \<Rightarrow> json option" where
  "body_text_field (Some (JObject members)) = map_of (rev members) ''feedback_text''"
| "body_text_field _ = None"

text \<open>The values for which \<open>!feedback_text\<close> is false.\<close>

fun truthy :: "json option \<Rightarrow> bool" where
  "truthy None = False"
| "truthy (Some JNull) = False"
| "truthy (Some (JBool b)) = b"
| "truthy (Some (JNumber x)) = (x \<noteq> 0)"
| "truthy (Some (JString s)) = (s \<noteq> [])"
| "truthy (Some (JArray _)) = True"
| "truthy (Some (JObject _)) = True"

text \<open>
  The two tables of the store, with the columns the handler reads and writes. The two
  counters are INTEGER columns, so the handler's arithmetic on them is exact and they are
  integers here. A feedback row holds the values the handler sends; what the
  \<open>DECIMAL(3,2)\<close> column makes of the confidence is left to the store.
\<close>

record credits =
  credits_id :: string
  credits_used :: int
  max_credits :: int

record feedback =
  col_id :: string
  col_feedback_text :: string
  col_sentiment :: sentiment
  col_confidence_score :: rat

record store =
  credits_tbl :: "credits list"
  feedback_tbl :: "feedback list"

text \<open>
  What the store does during one request is not decided by the handler: each of its
  three calls may fail, and the store chooses the identifier of a new row. The client
  itself is taken to be configured, so that \<open>createClient\<close> returns.
\<close>

record env =
  select_fails :: bool
  insert_fails :: bool
  update_fails :: bool
  new_id :: string

text \<open>\<open>.from('credits').select('*').single()\<close>: the one row of the table, or an error.\<close>

definition select_single :: "env \<Rightarrow> store \<Rightarrow> credits option" where
  "select_single e db =
     (if select_fails e then None
      else case credits_tbl db of [row] \<Rightarrow> Some row | _ \<Rightarrow> None)"

text \<open>\<open>.from('feedback').insert({...}).select().single()\<close>: the stored row and the new store.\<close>

definition insert_feedback :: "env \<Rightarrow> store \<Rightarrow> string \<Rightarrow> analysis \<Rightarrow> (feedback \<times> store) option" where
  "insert_feedback e db text a =
     (if insert_fails e then None
      else let row = \<lparr>col_id = new_id e, col_feedback_text = text,
                        col_sentiment = sentiment a, col_confidence_score = confidence a\<rparr>
           in Some (row, db\<lparr>feedback_tbl := feedback_tbl db @ [row]\<rparr>))"

text \<open>
  \<open>.from('credits').update({credits_used: ...}).eq('id', ...)\<close>: \<open>True\<close> with the store
  unchanged when the write fails.
\<close>

definition update_credits :: "env \<Rightarrow> store \<Rightarrow> string \<Rightarrow> int \<Rightarrow> bool \<times> store" where
  "update_credits e db i used =
     (if update_fails e then (True, db)
      else (False, db\<lparr>credits_tbl :=
              map (\<lambda>row. if credits_id row = i then row\<lparr>credits_used := used\<rparr> else row)
                (credits_tbl db)\<rparr>))"

datatype body =
  Text string
  | Json_error string
  | Json_result string sentiment rat int
      \<comment> \<open>\<open>id\<close>, \<open>sentiment\<close>, \<open>confidence\<close>, \<open>credits_remaining\<close>\<close>

record response =
  status :: nat
  body :: body

text \<open>The result of a request: the response, the store afterwards, the lines logged.\<close>

type_synonym outcome = "response \<times> store \<times> string list"

definition error_response :: "nat \<Rightarrow> string \<Rightarrow> response" where
  "error_response st msg = \<lparr>status = st, body = Json_error msg\<rparr>"

text \<open>The \<open>catch\<close> block.\<close>

definition internal_error :: "store \<Rightarrow> outcome" where
  "internal_error db = (error_response 500 ''Internal server error'', db, [''Error:''])"

definition serve :: "env \<Rightarrow> store \<Rightarrow> request \<Rightarrow> outcome" where
  "serve e db req =
     (if req_method req = ''OPTIONS'' then (\<lparr>status = 200, body = Text ''ok''\<rparr>, db, [])
      else case req_json req of
        None \<Rightarrow> internal_error db
      | Some j \<Rightarrow>
         (case destructure_feedback_text j of
            None \<Rightarrow> internal_error db
          | Some feedback_text \<Rightarrow>
             if \<not> truthy feedback_text then
               (error_response 400 ''Feedback text is required'', db, [])
             else
               (case select_single e db of
                  None \<Rightarrow> (error_response 500 ''Unable to check credits'', db, [])
                | Some creditsData \<Rightarrow>
                   if credits_used creditsData \<ge> max_credits creditsData then
                     (error_response 429
                        ''Credit limit reached. You have used all 5 credits.'', db, [])
                   else
                     (case feedback_text of
                        Some (JString text) \<Rightarrow>
                          (let analysis = analyzeSentiment text
                           in case insert_feedback e db text analysis of
                                None \<Rightarrow>
                                  (error_response 500 ''Failed to store feedback'', db, [])
                              | Some (feedbackData, db') \<Rightarrow>
                                  (let (updateCreditsError, db'') =
                                         update_credits e db' (credits_id creditsData)
                                           (credits_used creditsData + 1)
                                   in (\<lparr>status = 200,
                                        body = Json_result (col_id feedbackData)
                                          (sentiment analysis) (confidence analysis)
                                          (max_credits creditsData
                                             - (credits_used creditsData + 1))\<rparr>,
                                       db'',
                                       if updateCreditsError
                                       then [''Failed to update credits:''] else [])))
                      | _ \<Rightarrow> internal_error db))))"

text \<open>
  The request the form sends with \<open>supabase.functions.invoke('analyze-sentiment', {body})\<close>,
  and the store as the migration leaves it: no feedback, one credits row with 0 of 5 used.
\<close>

definition functions_invoke :: "json \<Rightarrow> request" where
  "functions_invoke b = \<lparr>req_method = ''POST'', req_json = Some b\<rparr>"

definition initial_store :: "string \<Rightarrow> store" where
  "initial_store i =
     \<lparr>credits_tbl = [\<lparr>credits_id = i, credits_used = 0, max_credits = 5\<rparr>], feedback_tbl = []\<rparr>"

section \<open>Properties of the rounding\<close>

text \<open>
  \<open>ilog2\<close> is the binary exponent; \<open>double_of\<close> moves a number by at most half a unit
  in the last place and leaves every normal double, a 53-bit significand times a power of
  two, where it is.
\<close>

lemma bits_bounds: "0 < n \<Longrightarrow> 2 ^ (bits n - 1) \<le> n \<and> n < 2 ^ bits n"
proof (induction n rule: bits.induct)
  case (1 n)
  show ?case
  proof (cases "n div 2 = 0")
    case True
    with "1.prems" have "n = Suc 0" by (simp add: div_eq_0_iff) 
    then show ?thesis by (simp add: bits.simps [of "Suc 0"] bits.simps [of 0])
  next
    case False
    then have pos: "0 < n div 2" by simp
    with "1.IH" "1.prems" have ih: "2 ^ (bits (n div 2) - 1) \<le> n div 2" "n div 2 < 2 ^ bits (n div 2)"
      by simp_all
    have b: "bits n = Suc (bits (n div 2))"
      using "1.prems" by (simp add: bits.simps [of n])
    have bp: "0 < bits (n div 2)"
      using pos by (simp add: bits.simps [of "n div 2"])
    then have e: "2 ^ bits (n div 2) = (2::nat) * 2 ^ (bits (n div 2) - 1)"
      by (cases "bits (n div 2)") simp_all
    have "2 ^ (bits n - 1) \<le> n"
      using ih(1) e b by simp
    moreover have "n < 2 ^ bits n"
      using ih(2) b by simp
    ultimately show ?thesis by simp
  qed
qed

lemma pow2_powi: "pow2 e = 2 powi e"
  by (simp add: pow2_def power_int_def inverse_eq_divide power_one_over)

lemma pow2_pos: "0 < pow2 e"
  by (simp add: pow2_powi)

lemma pow2_add: "pow2 (a + b) = pow2 a * pow2 b"
  by (simp add: pow2_powi power_int_add)

lemma pow2_mono: "a \<le> b \<Longrightarrow> pow2 a \<le> pow2 b"
  by (simp add: pow2_powi power_int_increasing)

lemma pow2_nat: "pow2 (int n) = 2 ^ n"
  by (simp add: pow2_def)

lemma pow2_neg_nat: "pow2 (- int k) = 1 / 2 ^ k"
  by (simp add: pow2_powi power_int_minus inverse_eq_divide)

lemma bits_pos: "0 < n \<Longrightarrow> 0 < bits n"
  by (simp add: bits.simps [of n])

lemma bits_bounds_rat:
  assumes "0 < n"
  shows "(2::rat) ^ (bits n - 1) \<le> of_nat n" and "(of_nat n + 1 :: rat) \<le> 2 ^ bits n"
proof -
  from bits_bounds [OF assms] have nb: "2 ^ (bits n - 1) \<le> n" "n + 1 \<le> 2 ^ bits n"
    by simp_all
  have "(of_nat (2 ^ (bits n - 1)) :: rat) \<le> of_nat n"
    using nb(1) by (simp only: of_nat_le_iff)
  then show "(2::rat) ^ (bits n - 1) \<le> of_nat n"
    by simp
  have "(of_nat (n + 1) :: rat) \<le> of_nat (2 ^ bits n)"
    using nb(2) by (simp only: of_nat_le_iff)
  then show "(of_nat n + 1 :: rat) \<le> 2 ^ bits n"
    by simp
qed

lemma floor_nat_bounds:
  assumes "1 \<le> (x::rat)"
  shows "0 < nat \<lfloor>x\<rfloor>" "of_nat (nat \<lfloor>x\<rfloor>) \<le> x" "x < of_nat (nat \<lfloor>x\<rfloor>) + 1"
proof -
  have f: "1 \<le> \<lfloor>x\<rfloor>" using assms by linarith
  then show "0 < nat \<lfloor>x\<rfloor>" by simp
  have e: "(of_nat (nat \<lfloor>x\<rfloor>) :: rat) = of_int \<lfloor>x\<rfloor>"
    using f by simp
  show "of_nat (nat \<lfloor>x\<rfloor>) \<le> x" unfolding e by linarith
  show "x < of_nat (nat \<lfloor>x\<rfloor>) + 1" unfolding e by linarith
qed

lemma ceiling_nat_bounds:
  assumes "1 < (y::rat)"
  shows "0 < nat (\<lceil>y\<rceil> - 1)" "of_nat (nat (\<lceil>y\<rceil> - 1)) < y" "y \<le> of_nat (nat (\<lceil>y\<rceil> - 1)) + 1"
proof -
  have c: "2 \<le> \<lceil>y\<rceil>" using assms by linarith
  then show "0 < nat (\<lceil>y\<rceil> - 1)" by simp
  have e: "(of_nat (nat (\<lceil>y\<rceil> - 1)) :: rat) = of_int \<lceil>y\<rceil> - 1"
    using c by simp
  show "of_nat (nat (\<lceil>y\<rceil> - 1)) < y" unfolding e by linarith
  show "y \<le> of_nat (nat (\<lceil>y\<rceil> - 1)) + 1" unfolding e by linarith
qed

lemma ilog2_bounds:
  assumes "0 < x"
  shows "pow2 (ilog2 x) \<le> x \<and> x < pow2 (ilog2 x + 1)"
proof (cases "1 \<le> x")
  case True
  define n where "n = nat \<lfloor>x\<rfloor>"
  have n: "0 < n" "of_nat n \<le> x" "x < of_nat n + 1"
    unfolding n_def using floor_nat_bounds [OF True] by blast+
  have b: "0 < bits n" using n(1) by (rule bits_pos)
  have il: "ilog2 x = int (bits n - 1)" "ilog2 x + 1 = int (bits n)"
    using True b by (simp_all add: ilog2_def n_def)
  have p: "pow2 (int (bits n - 1)) \<le> x" "x < pow2 (int (bits n))"
    unfolding pow2_nat using n(2,3) bits_bounds_rat [OF n(1)] by linarith+
  have "pow2 (ilog2 x) \<le> x"
    by (subst il(1)) (rule p(1))
  moreover have "x < pow2 (ilog2 x + 1)"
    by (subst il(2)) (rule p(2))
  ultimately show ?thesis
    by blast
next
  case False
  define m where "m = nat (\<lceil>1 / x\<rceil> - 1)"
  have y: "1 < 1 / x" using assms False by simp
  have m: "0 < m" "of_nat m < 1 / x" "1 / x \<le> of_nat m + 1"
    unfolding m_def using ceiling_nat_bounds [OF y] by blast+
  have b: "0 < bits m" using m(1) by (rule bits_pos)
  have il: "ilog2 x = - int (bits m)" "ilog2 x + 1 = - int (bits m - 1)"
    using False b by (simp_all add: ilog2_def m_def)
  have u: "1 / x \<le> 2 ^ bits m" and l: "2 ^ (bits m - 1) < 1 / x"
    using m(2,3) bits_bounds_rat [OF m(1)] by linarith+
  have lo: "1 / 2 ^ bits m \<le> x"
  proof -
    have "1 \<le> 2 ^ bits m * x"
      using u assms by (simp add: pos_divide_le_eq)
    then show ?thesis
      by (simp add: pos_divide_le_eq mult.commute)
  qed
  have hi: "x < 1 / 2 ^ (bits m - 1)"
  proof -
    have "2 ^ (bits m - 1) * x < 1"
      using l assms by (simp add: pos_less_divide_eq)
    then show ?thesis
      by (simp add: pos_less_divide_eq mult.commute)
  qed
  have p: "pow2 (- int (bits m)) \<le> x" "x < pow2 (- int (bits m - 1))"
    unfolding pow2_neg_nat using lo hi by blast+
  have "pow2 (ilog2 x) \<le> x"
    by (subst il(1)) (rule p(1))
  moreover have "x < pow2 (ilog2 x + 1)"
    by (subst il(2)) (rule p(2))
  ultimately show ?thesis
    by blast
qed

lemma ilog2_unique:
  assumes "pow2 e \<le> x" and "x < pow2 (e + 1)"
  shows "ilog2 x = e"
proof -
  have x: "0 < x" using assms(1) pow2_pos [of e] by linarith
  note b = ilog2_bounds [OF x]
  have "\<not> ilog2 x < e"
  proof
    assume "ilog2 x < e"
    then have "pow2 (ilog2 x + 1) \<le> pow2 e" by (intro pow2_mono) simp
    with b assms show False by linarith
  qed
  moreover have "\<not> e < ilog2 x"
  proof
    assume "e < ilog2 x"
    then have "pow2 (e + 1) \<le> pow2 (ilog2 x)" by (intro pow2_mono) simp
    with b assms show False by linarith
  qed
  ultimately show ?thesis by simp
qed

lemma round_half_even_error: "\<bar>of_int (round_half_even x) - x\<bar> \<le> 1 / 2"
proof -
  have lo: "of_int \<lfloor>x\<rfloor> \<le> x" and hi: "x < of_int \<lfloor>x\<rfloor> + 1"
    by linarith+
  show ?thesis
    unfolding round_half_even_def Let_def
    using lo hi by (simp add: abs_le_iff)
qed

lemma pow2_numeral: "pow2 1 = 2" "pow2 52 = 2 ^ 52" "pow2 53 = 2 ^ 53"
  using pow2_nat [of 1] pow2_nat [of 52] pow2_nat [of 53] by simp_all

lemma round_half_even_of_int: "round_half_even (of_int m) = m"
  by (simp add: round_half_even_def)

lemma double_of_error:
  assumes "x \<noteq> 0"
  shows "\<bar>double_of x - x\<bar> \<le> pow2 (max (ilog2 \<bar>x\<bar>) (- 1022) - 53)"
proof -
  define e where "e = max (ilog2 \<bar>x\<bar>) (- 1022)"
  define q where "q = pow2 (e - 52)"
  define m where "m = round_half_even (\<bar>x\<bar> / q)"
  have q: "0 < q" by (simp add: q_def pow2_pos)
  have d: "double_of x = sgn x * of_int m * q"
    using assms by (simp add: double_of_def Let_def e_def q_def m_def)
  have "\<bar>of_int m - \<bar>x\<bar> / q\<bar> \<le> 1 / 2"
    unfolding m_def by (rule round_half_even_error)
  then have "\<bar>of_int m - \<bar>x\<bar> / q\<bar> * q \<le> 1 / 2 * q"
    using q by (simp only: mult_le_cancel_right_pos)
  moreover have "\<bar>of_int m - \<bar>x\<bar> / q\<bar> * q = \<bar>of_int m * q - \<bar>x\<bar>\<bar>"
  proof -
    have "\<bar>of_int m - \<bar>x\<bar> / q\<bar> * q = \<bar>(of_int m - \<bar>x\<bar> / q) * q\<bar>"
      using q by (simp add: abs_mult)
    also have "(of_int m - \<bar>x\<bar> / q) * q = of_int m * q - \<bar>x\<bar>"
      using q by (simp add: left_diff_distrib)
    finally show ?thesis .
  qed
  moreover have "\<bar>double_of x - x\<bar> = \<bar>of_int m * q - \<bar>x\<bar>\<bar>"
  proof -
    have "double_of x - x = sgn x * (of_int m * q - \<bar>x\<bar>)"
      unfolding d by (simp add: right_diff_distrib mult.assoc sgn_mult_abs)
    then have "\<bar>double_of x - x\<bar> = \<bar>sgn x\<bar> * \<bar>of_int m * q - \<bar>x\<bar>\<bar>"
      by (simp only: abs_mult)
    then show ?thesis
      using assms by (simp add: abs_sgn_eq)
  qed
  moreover have "1 / 2 * q = pow2 (e - 53)"
  proof -
    have "pow2 (e - 52) = pow2 (e - 53) * pow2 1"
      using pow2_add [of "e - 53" 1] by simp
    then show ?thesis
      by (simp add: q_def pow2_numeral)
  qed
  ultimately show ?thesis
    unfolding e_def by simp
qed

lemma double_of_representable:
  assumes "2 ^ 52 \<le> m" and "m < 2 ^ 53" and "- 1022 \<le> e"
  shows "double_of (of_int m * pow2 (e - 52)) = of_int m * pow2 (e - 52)"
proof -
  define q where "q = pow2 (e - 52)"
  define a where "a = of_int m * q"
  have q: "0 < q" by (simp add: q_def pow2_pos)
  have mr: "(2::rat) ^ 52 \<le> of_int m" "(of_int m :: rat) < 2 ^ 53"
  proof -
    have "(of_int (2 ^ 52) :: rat) \<le> of_int m"
      using assms(1) by (simp only: of_int_le_iff)
    then show "(2::rat) ^ 52 \<le> of_int m" by simp
    have "(of_int m :: rat) < of_int (2 ^ 53)"
      using assms(2) by (simp only: of_int_less_iff)
    then show "(of_int m :: rat) < 2 ^ 53" by simp
  qed
  have a: "0 < a" using mr(1) q by (simp add: a_def)
  have e1: "pow2 e = 2 ^ 52 * q"
    using pow2_add [of 52 "e - 52"] by (simp add: q_def pow2_numeral)
  have e2: "pow2 (e + 1) = 2 ^ 53 * q"
    using pow2_add [of 53 "e - 52"] by (simp add: q_def pow2_numeral add.commute)
  have lo: "pow2 e \<le> a"
    unfolding e1 a_def using mr(1) q by (simp only: mult_le_cancel_right_pos)
  have hi: "a < pow2 (e + 1)"
    unfolding e2 a_def using mr(2) q by (simp only: mult_less_cancel_right_pos)
  have il: "ilog2 a = e"
    using lo hi by (rule ilog2_unique)
  have div: "a / q = of_int m"
    using q by (simp add: a_def)
  have "double_of a = sgn a * of_int (round_half_even (\<bar>a\<bar> / pow2 (max (ilog2 \<bar>a\<bar>) (- 1022) - 52)))
      * pow2 (max (ilog2 \<bar>a\<bar>) (- 1022) - 52)"
    using a by (simp add: double_of_def Let_def)
  also have "\<bar>a\<bar> = a" using a by simp
  also have "max (ilog2 a) (- 1022) = e" using il assms(3) by simp
  also have "pow2 (e - 52) = q" by (simp add: q_def)
  also have "a / q = of_int m" by (rule div)
  also have "round_half_even (of_int m) = m" by (rule round_half_even_of_int)
  also have "sgn a = 1" using a by simp
  finally show ?thesis
    by (simp add: a_def q_def)
qed

section \<open>Properties of the classifier\<close>

text \<open>
  \<open>includes\<close> is containment as a contiguous sublist, and each \<open>forEach\<close> counts the words of
  its list that the lower-cased text contains.
\<close>

lemma String_includes_sublist: "String_includes s w = sublist w s"
  by (induction s) (auto simp: sublist_Cons_right)

lemma forEach_score_filter:
  "forEach_score lowerText words score =
     score + length (filter (\<lambda>word. sublist word lowerText) words)"
  by (induction words arbitrary: score) (simp_all add: String_includes_sublist)

lemma distinct_positiveWords: "distinct positiveWords"
  by (simp add: positiveWords_def)

lemma distinct_negativeWords: "distinct negativeWords"
  by (simp add: negativeWords_def)

lemma positiveScore_card:
  "positiveScore text = card {word \<in> set positiveWords. sublist word (toLowerCase text)}"
  by (simp add: positiveScore_def forEach_score_filter distinct_positiveWords
      distinct_length_filter Int_def conj_commute)

lemma negativeScore_card:
  "negativeScore text = card {word \<in> set negativeWords. sublist word (toLowerCase text)}"
  by (simp add: negativeScore_def forEach_score_filter distinct_negativeWords
      distinct_length_filter Int_def conj_commute)

lemma positiveScore_le: "positiveScore text \<le> 13"
proof -
  have "positiveScore text \<le> length positiveWords"
    by (simp add: positiveScore_def forEach_score_filter)
  then show ?thesis by (simp add: positiveWords_def)
qed

lemma negativeScore_le: "negativeScore text \<le> 11"
proof -
  have "negativeScore text \<le> length negativeWords"
    by (simp add: negativeScore_def forEach_score_filter)
  then show ?thesis by (simp add: negativeWords_def)
qed

lemma double_0_95: "double_of (95 / 100) = 4278419646001971 / 4503599627370496"
  by code_simp

lemma double_0_6: "double_of (6 / 10) = 5404319552844595 / 9007199254740992"
  by code_simp

lemma double_0_1: "double_of (1 / 10) = 3602879701896397 / 36028797018963968"
  by code_simp

lemma double_0_7: "double_of (7 / 10) = 3152519739159347 / 4503599627370496"
  by code_simp

lemma confidence_table:
  "\<forall>k \<in> set [0..<14].
     min (4278419646001971 / 4503599627370496)
       (double_of (5404319552844595 / 9007199254740992
          + double_of (of_nat k * (3602879701896397 / 36028797018963968))))
       = double_of (min (95 / 100) (6 / 10 + 1 / 10 * of_nat k))"
  by code_simp

lemma confidence_formula_eq:
  assumes "k \<le> 13"
  shows "Math_min (double_of (95 / 100))
           (dadd (double_of (6 / 10)) (dmul (of_nat k) (double_of (1 / 10))))
         = double_of (min (95 / 100) (6 / 10 + 1 / 10 * of_nat k))"
proof -
  from assms have "k \<in> set [0..<14]" by simp
  with confidence_table show ?thesis
    unfolding Math_min_def dadd_def dmul_def double_0_95 double_0_6 double_0_1
    by blast
qed

text \<open>
  Against a keyword of small letters, lower-casing a piece of the text and comparing is
  the same as comparing up to case; so a keyword is included exactly when some contiguous
  piece of the text itself equals it up to case.
\<close>

lemma toLowerChar_eq_iff:
  assumes "97 \<le> (of_char d :: nat)" and "(of_char d :: nat) \<le> 122"
  shows "toLowerChar c = d \<longleftrightarrow> same_ignoring_case c d"
proof (cases "65 \<le> (of_char c :: nat) \<and> (of_char c :: nat) \<le> 90")
  case True
  then have l: "toLowerChar c = char_of (of_char c + 32 :: nat)"
    by (simp add: toLowerChar_def)
  have ne: "c \<noteq> d" using True assms by auto
  have "char_of (of_char c + 32 :: nat) = d \<longleftrightarrow> (of_char d :: nat) = of_char c + 32"
  proof
    assume "char_of (of_char c + 32 :: nat) = d"
    then have "(of_char d :: nat) = (of_char c + 32) mod 256"
      by (metis of_char_of)
    then show "(of_char d :: nat) = of_char c + 32"
      using True by simp
  next
    assume "(of_char d :: nat) = of_char c + 32"
    then have "char_of (of_char c + 32 :: nat) = (char_of (of_char d :: nat) :: char)"
      by simp
    then show "char_of (of_char c + 32 :: nat) = d"
      by simp
  qed
  then show ?thesis
    unfolding l same_ignoring_case_def using True assms ne by auto
next
  case False
  then have l: "toLowerChar c = c"
    by (auto simp: toLowerChar_def)
  show ?thesis
    unfolding l same_ignoring_case_def using False assms by auto
qed

lemma map_toLowerChar_eq_iff:
  assumes "\<forall>d \<in> set w. 97 \<le> (of_char d :: nat) \<and> (of_char d :: nat) \<le> 122"
  shows "map toLowerChar u = w \<longleftrightarrow> list_all2 same_ignoring_case u w"
  using assms
proof (induction u arbitrary: w)
  case Nil
  then show ?case by auto
next
  case (Cons c u)
  show ?case
  proof (cases w)
    case Nil
    then show ?thesis by simp
  next
    case (Cons d w')
    with Cons.prems have d: "97 \<le> (of_char d :: nat)" "(of_char d :: nat) \<le> 122"
      and w': "\<forall>d \<in> set w'. 97 \<le> (of_char d :: nat) \<and> (of_char d :: nat) \<le> 122"
      by simp_all
    show ?thesis
      unfolding Cons using toLowerChar_eq_iff [OF d, of c] Cons.IH [OF w'] by simp
  qed
qed

lemma sublist_toLowerCase_iff:
  assumes "\<forall>d \<in> set w. 97 \<le> (of_char d :: nat) \<and> (of_char d :: nat) \<le> 122"
  shows "sublist w (toLowerCase text)
     \<longleftrightarrow> (\<exists>ps u ss. text = ps @ u @ ss \<and> list_all2 same_ignoring_case u w)"
proof
  assume "sublist w (toLowerCase text)"
  then obtain ps' ss' where "map toLowerChar text = ps' @ w @ ss'"
    unfolding sublist_def toLowerCase_def by blast
  then have "\<exists>ps r. text = ps @ r \<and> ps' = map toLowerChar ps \<and> w @ ss' = map toLowerChar r"
    by (simp only: map_eq_append_conv)
  then obtain ps r where r: "text = ps @ r" "w @ ss' = map toLowerChar r"
    by blast
  from r(2) have "\<exists>u ss. r = u @ ss \<and> w = map toLowerChar u \<and> ss' = map toLowerChar ss"
    by (simp only: append_eq_map_conv)
  then obtain u ss where u: "r = u @ ss" "map toLowerChar u = w"
    by blast
  from u(2) have "list_all2 same_ignoring_case u w"
    by (simp add: map_toLowerChar_eq_iff [OF assms])
  with r(1) u(1) show "\<exists>ps u ss. text = ps @ u @ ss \<and> list_all2 same_ignoring_case u w"
    by blast
next
  assume "\<exists>ps u ss. text = ps @ u @ ss \<and> list_all2 same_ignoring_case u w"
  then obtain ps u ss where t: "text = ps @ u @ ss" and "list_all2 same_ignoring_case u w"
    by blast
  then have "map toLowerChar u = w"
    by (simp add: map_toLowerChar_eq_iff [OF assms])
  then have "toLowerCase text = map toLowerChar ps @ w @ map toLowerChar ss"
    by (simp add: t toLowerCase_def)
  then show "sublist w (toLowerCase text)"
    unfolding sublist_def by blast
qed

lemma positiveWords_lower:
  "\<forall>w \<in> set positiveWords. \<forall>d \<in> set w. 97 \<le> (of_char d :: nat) \<and> (of_char d :: nat) \<le> 122"
  by (simp add: positiveWords_def)

lemma negativeWords_lower:
  "\<forall>w \<in> set negativeWords. \<forall>d \<in> set w. 97 \<le> (of_char d :: nat) \<and> (of_char d :: nat) \<le> 122"
  by (simp add: negativeWords_def)

lemma positiveScore_ignoring_case:
  "positiveScore text = card {word \<in> set positiveWords.
      \<exists>ps u ss. text = ps @ u @ ss \<and> list_all2 same_ignoring_case u word}"
proof -
  have "sublist word (toLowerCase text)
      \<longleftrightarrow> (\<exists>ps u ss. text = ps @ u @ ss \<and> list_all2 same_ignoring_case u word)"
    if "word \<in> set positiveWords" for word
  proof (rule sublist_toLowerCase_iff)
    show "\<forall>d \<in> set word. 97 \<le> (of_char d :: nat) \<and> (of_char d :: nat) \<le> 122"
      using positiveWords_lower that by (rule bspec)
  qed
  then have "{word \<in> set positiveWords. sublist word (toLowerCase text)}
      = {word \<in> set positiveWords.
          \<exists>ps u ss. text = ps @ u @ ss \<and> list_all2 same_ignoring_case u word}"
    by (intro Collect_cong conj_cong refl)
  then show ?thesis
    by (simp only: positiveScore_card)
qed

lemma negativeScore_ignoring_case:
  "negativeScore text = card {word \<in> set negativeWords.
      \<exists>ps u ss. text = ps @ u @ ss \<and> list_all2 same_ignoring_case u word}"
proof -
  have "sublist word (toLowerCase text)
      \<longleftrightarrow> (\<exists>ps u ss. text = ps @ u @ ss \<and> list_all2 same_ignoring_case u word)"
    if "word \<in> set negativeWords" for word
  proof (rule sublist_toLowerCase_iff)
    show "\<forall>d \<in> set word. 97 \<le> (of_char d :: nat) \<and> (of_char d :: nat) \<le> 122"
      using negativeWords_lower that by (rule bspec)
  qed
  then have "{word \<in> set negativeWords. sublist word (toLowerCase text)}
      = {word \<in> set negativeWords.
          \<exists>ps u ss. text = ps @ u @ ss \<and> list_all2 same_ignoring_case u word}"
    by (intro Collect_cong conj_cong refl)
  then show ?thesis
    by (simp only: negativeScore_card)
qed

lemma toLowerChar_same:
  assumes "same_ignoring_case c d"
  shows "toLowerChar c = toLowerChar d"
proof -
  consider "c = d"
    | "65 \<le> (of_char c :: nat)" "(of_char c :: nat) \<le> 90" "(of_char d :: nat) = of_char c + 32"
    | "65 \<le> (of_char d :: nat)" "(of_char d :: nat) \<le> 90" "(of_char c :: nat) = of_char d + 32"
    using assms unfolding same_ignoring_case_def by blast
  then show ?thesis
  proof cases
    case 1
    then show ?thesis by simp
  next
    case 2
    then have d: "97 \<le> (of_char d :: nat)" "(of_char d :: nat) \<le> 122" by simp_all
    have "toLowerChar c = d"
      using toLowerChar_eq_iff [OF d, of c] assms by simp
    moreover have "toLowerChar d = d"
      using d by (simp add: toLowerChar_def)
    ultimately show ?thesis by simp
  next
    case 3
    then have c: "97 \<le> (of_char c :: nat)" "(of_char c :: nat) \<le> 122" by simp_all
    have "same_ignoring_case d c"
      using assms unfolding same_ignoring_case_def by blast
    then have "toLowerChar d = c"
      using toLowerChar_eq_iff [OF c, of d] by simp
    moreover have "toLowerChar c = c"
      using c by (simp add: toLowerChar_def)
    ultimately show ?thesis by simp
  qed
qed

lemma toLowerCase_same:
  "list_all2 same_ignoring_case text text' \<Longrightarrow> toLowerCase text = toLowerCase text'"
  unfolding toLowerCase_def
  by (induction rule: list_all2_induct) (simp_all add: toLowerChar_same)

section \<open>Claims about the classifier\<close>

text \<open>
  C1. For a non-empty text the sentiment is positive exactly when more positive than
  negative keywords occur in the lower-cased text, negative exactly when more negative
  than positive ones occur, and with equal counts (zero included) the result is neutral
  with the confidence 0.7.
\<close>

theorem analyzeSentiment_decision:
  assumes "text \<noteq> []"
  shows "(sentiment (analyzeSentiment text) = positive \<longleftrightarrow>
            card {word \<in> set positiveWords. sublist word (toLowerCase text)}
              > card {word \<in> set negativeWords. sublist word (toLowerCase text)})
       \<and> (sentiment (analyzeSentiment text) = negative \<longleftrightarrow>
            card {word \<in> set negativeWords. sublist word (toLowerCase text)}
              > card {word \<in> set positiveWords. sublist word (toLowerCase text)})
       \<and> (card {word \<in> set positiveWords. sublist word (toLowerCase text)}
            = card {word \<in> set negativeWords. sublist word (toLowerCase text)} \<longrightarrow>
            analyzeSentiment text = \<lparr>sentiment = neutral, confidence = double_of (7 / 10)\<rparr>)"
  unfolding positiveScore_card [symmetric] negativeScore_card [symmetric]
  by (simp add: analyzeSentiment_def)

theorem analyzeSentiment_decision_witness:
  "''good, not bad'' \<noteq> []
   \<and> analyzeSentiment ''good, not bad'' = \<lparr>sentiment = neutral, confidence = double_of (7 / 10)\<rparr>
   \<and> sentiment (analyzeSentiment ''I love it'') = positive
   \<and> sentiment (analyzeSentiment ''awful'') = negative"
proof -
  have 1: "positiveScore ''good, not bad'' = negativeScore ''good, not bad''" by code_simp
  have 2: "negativeScore ''I love it'' < positiveScore ''I love it''" by code_simp
  have 3: "positiveScore ''awful'' < negativeScore ''awful''" by code_simp
  show ?thesis
    using analyzeSentiment_decision [of "''good, not bad''"]
      analyzeSentiment_decision [of "''I love it''"]
      analyzeSentiment_decision [of "''awful''"] 1 2 3
    unfolding positiveScore_card [symmetric] negativeScore_card [symmetric]
    by simp
qed

text \<open>
  C2. When the classifier decides for a side, the confidence is
  \<open>Math.min(0.95, 0.6 + 0.1 * k)\<close> in double arithmetic, \<open>k\<close> the score of the winning
  side; this is also the double nearest to the exact value of that expression.
\<close>

theorem decided_confidence:
  "(sentiment (analyzeSentiment text) = positive \<longrightarrow>
      confidence (analyzeSentiment text)
        = Math_min (double_of (95 / 100))
            (dadd (double_of (6 / 10)) (dmul (double_of (1 / 10)) (of_nat (positiveScore text))))
    \<and> confidence (analyzeSentiment text)
        = double_of (min (95 / 100) (6 / 10 + 1 / 10 * of_nat (positiveScore text))))
 \<and> (sentiment (analyzeSentiment text) = negative \<longrightarrow>
      confidence (analyzeSentiment text)
        = Math_min (double_of (95 / 100))
            (dadd (double_of (6 / 10)) (dmul (double_of (1 / 10)) (of_nat (negativeScore text))))
    \<and> confidence (analyzeSentiment text)
        = double_of (min (95 / 100) (6 / 10 + 1 / 10 * of_nat (negativeScore text))))"
proof -
  have comm: "dmul x y = dmul y x" for x y
    by (simp add: dmul_def mult.commute)
  have p: "Math_min (double_of (95 / 100))
             (dadd (double_of (6 / 10)) (dmul (of_nat (positiveScore text)) (double_of (1 / 10))))
           = double_of (min (95 / 100) (6 / 10 + 1 / 10 * of_nat (positiveScore text)))"
    by (rule confidence_formula_eq) (rule positiveScore_le)
  have n: "Math_min (double_of (95 / 100))
             (dadd (double_of (6 / 10)) (dmul (of_nat (negativeScore text)) (double_of (1 / 10))))
           = double_of (min (95 / 100) (6 / 10 + 1 / 10 * of_nat (negativeScore text)))"
    by (rule confidence_formula_eq) (use negativeScore_le [of "text"] in simp)
  show ?thesis
    using p n by (simp add: analyzeSentiment_def comm [of "double_of (1 / 10)"])
qed

theorem decided_confidence_witness:
  "sentiment (analyzeSentiment ''I love it'') = positive
   \<and> confidence (analyzeSentiment ''I love it'') = double_of (min (95 / 100) (6 / 10 + 1 / 10 * 1))
   \<and> sentiment (analyzeSentiment ''awful, horrible'') = negative
   \<and> confidence (analyzeSentiment ''awful, horrible'')
       = double_of (min (95 / 100) (6 / 10 + 1 / 10 * 2))"
proof -
  have s1: "sentiment (analyzeSentiment ''I love it'') = positive" by code_simp
  have k1: "positiveScore ''I love it'' = 1" by code_simp
  have s2: "sentiment (analyzeSentiment ''awful, horrible'') = negative" by code_simp
  have k2: "negativeScore ''awful, horrible'' = 2" by code_simp
  show ?thesis
    using decided_confidence [of "''I love it''"] decided_confidence [of "''awful, horrible''"]
      s1 k1 s2 k2
    by simp
qed

text \<open>
  C4. In each of the three branches the confidence is at most the double 0.95, which is
  itself below the exact 0.95.
\<close>

theorem confidence_le_0_95:
  "confidence (analyzeSentiment text) \<le> double_of (95 / 100)
   \<and> confidence (analyzeSentiment text) \<le> 95 / 100"
proof -
  have a: "double_of (7 / 10) \<le> double_of (95 / 100)"
    unfolding double_0_7 double_0_95 by simp
  have b: "double_of (95 / 100) \<le> 95 / 100"
    unfolding double_0_95 by simp
  have "confidence (analyzeSentiment text) \<le> double_of (95 / 100)"
    using a by (simp add: analyzeSentiment_def Math_min_def)
  with b show ?thesis by simp
qed

text \<open>
  C5. A text that contains at least one positive keyword and no negative keyword is
  classified as positive.
\<close>

theorem only_positive_keywords:
  assumes "\<exists>word \<in> set positiveWords. sublist word (toLowerCase text)"
    and "\<forall>word \<in> set negativeWords. \<not> sublist word (toLowerCase text)"
  shows "sentiment (analyzeSentiment text) = positive"
proof -
  from assms(2) have "{word \<in> set negativeWords. sublist word (toLowerCase text)} = {}"
    by blast
  then have n: "negativeScore text = 0"
    by (simp add: negativeScore_card)
  from assms(1) have "{word \<in> set positiveWords. sublist word (toLowerCase text)} \<noteq> {}"
    by blast
  then have "0 < positiveScore text"
    by (simp add: positiveScore_card card_gt_0_iff)
  with n show ?thesis
    by (simp add: analyzeSentiment_def)
qed

theorem only_positive_keywords_witness:
  "(\<exists>word \<in> set positiveWords. sublist word (toLowerCase ''I love it''))
   \<and> \<not> (\<exists>word \<in> set negativeWords. sublist word (toLowerCase ''I love it''))
   \<and> sentiment (analyzeSentiment ''I love it'') = positive"
proof -
  have p: "\<exists>word \<in> set positiveWords. sublist word (toLowerCase ''I love it'')"
    by code_simp
  have n: "\<forall>word \<in> set negativeWords. \<not> sublist word (toLowerCase ''I love it'')"
    by code_simp
  show ?thesis
    using only_positive_keywords [OF p n] p n by simp
qed

text \<open>
  C9. "This is great and awesome" has two positive matches and no negative one; it is
  classified as positive with the confidence 0.8, the double that 0.6 + 2 * 0.1 gives.
\<close>

theorem great_and_awesome:
  "positiveScore ''This is great and awesome'' = 2
   \<and> negativeScore ''This is great and awesome'' = 0
   \<and> analyzeSentiment ''This is great and awesome''
       = \<lparr>sentiment = positive, confidence = double_of (8 / 10)\<rparr>
   \<and> double_of (8 / 10) = dadd (double_of (6 / 10)) (dmul 2 (double_of (1 / 10)))"
  by code_simp

text \<open>
  C10. A keyword counts exactly when some contiguous piece of the text, anywhere in it,
  equals the keyword up to the case of its letters; texts that differ only in case score
  alike. Each keyword of a list counts once, however often it occurs, so the positive
  score is at most 13 and the negative score at most 11. "badge" matches "bad" (and no
  positive keyword), and "good good good" and "GOOD, Good" both score 1.
\<close>

theorem keyword_matching:
  "positiveScore text = card {word \<in> set positiveWords.
      \<exists>ps u ss. text = ps @ u @ ss \<and> list_all2 same_ignoring_case u word}
   \<and> negativeScore text = card {word \<in> set negativeWords.
      \<exists>ps u ss. text = ps @ u @ ss \<and> list_all2 same_ignoring_case u word}
   \<and> (list_all2 same_ignoring_case text text' \<longrightarrow>
        positiveScore text = positiveScore text' \<and> negativeScore text = negativeScore text')
   \<and> positiveScore text = card {word \<in> set positiveWords. sublist word (toLowerCase text)}
   \<and> negativeScore text = card {word \<in> set negativeWords. sublist word (toLowerCase text)}
   \<and> positiveScore text \<le> 13
   \<and> negativeScore text \<le> 11
   \<and> negativeScore ''badge'' = 1
   \<and> positiveScore ''badge'' = 0
   \<and> positiveScore ''good'' = 1
   \<and> positiveScore ''good good good'' = 1
   \<and> positiveScore ''GOOD, Good'' = 1
   \<and> same_ignoring_case (CHR ''G'') (CHR ''g'')
   \<and> \<not> same_ignoring_case (CHR ''g'') (CHR ''b'')"
proof -
  have ex: "negativeScore ''badge'' = 1" "positiveScore ''badge'' = 0"
    "positiveScore ''good'' = 1" "positiveScore ''good good good'' = 1"
    "positiveScore ''GOOD, Good'' = 1"
    "same_ignoring_case (CHR ''G'') (CHR ''g'')"
    "\<not> same_ignoring_case (CHR ''g'') (CHR ''b'')"
    by code_simp+
  have ci: "list_all2 same_ignoring_case text text' \<longrightarrow>
        positiveScore text = positiveScore text' \<and> negativeScore text = negativeScore text'"
    by (simp add: positiveScore_def negativeScore_def toLowerCase_same)
  show ?thesis
    using ex ci positiveScore_ignoring_case [of "text"] negativeScore_ignoring_case [of "text"]
      positiveScore_card [of "text"] negativeScore_card [of "text"]
      positiveScore_le [of "text"] negativeScore_le [of "text"]
    by (simp only: simp_thms)
qed

theorem keyword_matching_witness:
  "list_all2 same_ignoring_case ''Good BADGE'' ''gOOD badge''
   \<and> positiveScore ''Good BADGE'' = positiveScore ''gOOD badge''
   \<and> negativeScore ''Good BADGE'' = negativeScore ''gOOD badge''
   \<and> positiveScore ''Good BADGE'' = 1
   \<and> negativeScore ''Good BADGE'' = 1"
proof -
  have l: "list_all2 same_ignoring_case ''Good BADGE'' ''gOOD badge''"
    by code_simp
  have v: "positiveScore ''Good BADGE'' = 1" "negativeScore ''Good BADGE'' = 1"
    by code_simp+
  have "list_all2 same_ignoring_case ''Good BADGE'' ''gOOD badge'' \<longrightarrow>
      positiveScore ''Good BADGE'' = positiveScore ''gOOD badge''
      \<and> negativeScore ''Good BADGE'' = negativeScore ''gOOD badge''"
    by (rule conjunct1 [OF conjunct2 [OF conjunct2
          [OF keyword_matching [of "''Good BADGE''" "''gOOD badge''"]]]])
  with l v show ?thesis
    by (simp only: simp_thms)
qed

section \<open>Properties of the handler\<close>

text \<open>
  Once the method is not OPTIONS, the body has parsed and the text is truthy, the handler
  reads the counter, checks the gate, classifies, inserts and updates, in this order.
\<close>

lemma serve_gate_reached:
  assumes "req_method req \<noteq> ''OPTIONS''"
    and "req_json req = Some j"
    and "destructure_feedback_text j = Some feedback_text"
    and "truthy feedback_text"
  shows "serve e db req =
     (case select_single e db of
        None \<Rightarrow> (error_response 500 ''Unable to check credits'', db, [])
      | Some creditsData \<Rightarrow>
         if credits_used creditsData \<ge> max_credits creditsData then
           (error_response 429 ''Credit limit reached. You have used all 5 credits.'', db, [])
         else
           (case feedback_text of
              Some (JString text) \<Rightarrow>
                (case insert_feedback e db text (analyzeSentiment text) of
                   None \<Rightarrow> (error_response 500 ''Failed to store feedback'', db, [])
                 | Some (feedbackData, db') \<Rightarrow>
                     (\<lparr>status = 200,
                       body = Json_result (col_id feedbackData)
                         (sentiment (analyzeSentiment text)) (confidence (analyzeSentiment text))
                         (max_credits creditsData - (credits_used creditsData + 1))\<rparr>,
                      snd (update_credits e db' (credits_id creditsData)
                             (credits_used creditsData + 1)),
                      if fst (update_credits e db' (credits_id creditsData)
                                (credits_used creditsData + 1))
                      then [''Failed to update credits:''] else []))
            | _ \<Rightarrow> internal_error db))"
  using assms
  by (simp add: serve_def Let_def case_prod_beta split: option.splits json.splits)

text \<open>
  The \<open>catch\<close> block answers a body that is not JSON or is \<open>null\<close>, and, past the gate,
  a truthy text that is not a string and so has no \<open>toLowerCase\<close>.
\<close>

lemma serve_body_raises:
  assumes "req_method req \<noteq> ''OPTIONS''"
    and "req_json req = None \<or> req_json req = Some JNull"
  shows "serve e db req = internal_error db"
  using assms by (auto simp: serve_def)

lemma serve_text_not_string:
  assumes "req_method req \<noteq> ''OPTIONS''"
    and "req_json req = Some j"
    and "destructure_feedback_text j = Some feedback_text"
    and "truthy feedback_text"
    and "\<forall>text. feedback_text \<noteq> Some (JString text)"
    and "select_single e db = Some creditsData"
    and "credits_used creditsData < max_credits creditsData"
  shows "serve e db req = internal_error db"
  using assms(5-7)
  by (simp add: serve_gate_reached [OF assms(1-4)] split: option.splits json.splits)

lemma destructure_body_text_field:
  "j \<noteq> JNull \<Longrightarrow> destructure_feedback_text j = Some (body_text_field (Some j))"
  by (cases j) simp_all

lemma serve_feedback_tbl_changed:
  assumes "feedback_tbl (fst (snd (serve e db req))) \<noteq> feedback_tbl db"
  shows "\<exists>creditsData. select_single e db = Some creditsData
           \<and> credits_used creditsData < max_credits creditsData"
  using assms
  by (auto simp: serve_def Let_def case_prod_beta internal_error_def insert_feedback_def
      update_credits_def split: option.splits json.splits if_splits)

lemma select_single_Some:
  "select_single e db = Some creditsData \<Longrightarrow> credits_tbl db = [creditsData]"
  by (auto simp: select_single_def split: if_splits list.splits)

section \<open>Claims about the handler\<close>

text \<open>
  C3. When the counter read at the gate has \<open>credits_used \<ge> max_credits\<close>, the request is
  answered with status 429 and the store is left as it was; and whenever the feedback
  table changes, the counter had been read with \<open>credits_used < max_credits\<close>, so the
  gate comes before every insertion.
\<close>

theorem credit_gate:
  "(req_method req \<noteq> ''OPTIONS'' \<and> req_json req = Some j
      \<and> destructure_feedback_text j = Some feedback_text \<and> truthy feedback_text
      \<and> select_single e db = Some creditsData
      \<and> credits_used creditsData \<ge> max_credits creditsData
    \<longrightarrow> serve e db req =
          (\<lparr>status = 429,
            body = Json_error ''Credit limit reached. You have used all 5 credits.''\<rparr>, db, []))
   \<and> (feedback_tbl (fst (snd (serve e db req))) \<noteq> feedback_tbl db
    \<longrightarrow> (\<exists>creditsData. select_single e db = Some creditsData
           \<and> credits_used creditsData < max_credits creditsData))"
proof (intro conjI impI)
  assume "req_method req \<noteq> ''OPTIONS'' \<and> req_json req = Some j
      \<and> destructure_feedback_text j = Some feedback_text \<and> truthy feedback_text
      \<and> select_single e db = Some creditsData
      \<and> credits_used creditsData \<ge> max_credits creditsData"
  then show "serve e db req =
          (\<lparr>status = 429,
            body = Json_error ''Credit limit reached. You have used all 5 credits.''\<rparr>, db, [])"
    by (simp add: serve_gate_reached [of req j feedback_text] error_response_def)
next
  assume "feedback_tbl (fst (snd (serve e db req))) \<noteq> feedback_tbl db"
  then show "\<exists>creditsData. select_single e db = Some creditsData
           \<and> credits_used creditsData < max_credits creditsData"
    by (rule serve_feedback_tbl_changed)
qed

theorem credit_gate_witness:
  "serve \<lparr>select_fails = False, insert_fails = False, update_fails = False, new_id = ''f6''\<rparr>
     \<lparr>credits_tbl = [\<lparr>credits_id = ''c'', credits_used = 5, max_credits = 5\<rparr>], feedback_tbl = []\<rparr>
     (functions_invoke (JObject [(''feedback_text'', JString ''great'')]))
   = (\<lparr>status = 429,
       body = Json_error ''Credit limit reached. You have used all 5 credits.''\<rparr>,
      \<lparr>credits_tbl = [\<lparr>credits_id = ''c'', credits_used = 5, max_credits = 5\<rparr>], feedback_tbl = []\<rparr>,
      [])
   \<and> feedback_tbl (fst (snd (serve
         \<lparr>select_fails = False, insert_fails = False, update_fails = False, new_id = ''f1''\<rparr>
         (initial_store ''c'')
         (functions_invoke (JObject [(''feedback_text'', JString ''great'')])))))
       \<noteq> feedback_tbl (initial_store ''c'')
   \<and> (\<exists>creditsData.
         select_single \<lparr>select_fails = False, insert_fails = False, update_fails = False, new_id = ''f1''\<rparr>
           (initial_store ''c'') = Some creditsData
         \<and> credits_used creditsData < max_credits creditsData)"
proof -
  have ins: "feedback_tbl (fst (snd (serve
         \<lparr>select_fails = False, insert_fails = False, update_fails = False, new_id = ''f1''\<rparr>
         (initial_store ''c'')
         (functions_invoke (JObject [(''feedback_text'', JString ''great'')])))))
       \<noteq> feedback_tbl (initial_store ''c'')"
    by (simp add: serve_def functions_invoke_def initial_store_def select_single_def
        insert_feedback_def Let_def
        update_credits_def)
  show ?thesis
    using ins
      credit_gate [of "functions_invoke (JObject [(''feedback_text'', JString ''great'')])"
        "JObject [(''feedback_text'', JString ''great'')]" "Some (JString ''great'')"
        "\<lparr>select_fails = False, insert_fails = False, update_fails = False, new_id = ''f6''\<rparr>"
        "\<lparr>credits_tbl = [\<lparr>credits_id = ''c'', credits_used = 5, max_credits = 5\<rparr>], feedback_tbl = []\<rparr>"
        "\<lparr>credits_id = ''c'', credits_used = 5, max_credits = 5\<rparr>"]
      credit_gate [of "functions_invoke (JObject [(''feedback_text'', JString ''great'')])"
        "JObject [(''feedback_text'', JString ''great'')]" "Some (JString ''great'')"
        "\<lparr>select_fails = False, insert_fails = False, update_fails = False, new_id = ''f1''\<rparr>"
        "initial_store ''c''"]
    by (simp add: functions_invoke_def select_single_def)
qed

text \<open>
  C6. When the gate is passed and the record is stored, the response has status 200 and
  reports \<open>max_credits - (credits_used + 1)\<close> remaining credits, from the counter read
  before; if the update succeeds this is what the stored counter then leaves.
\<close>

theorem credits_remaining_reported:
  assumes "req_method req \<noteq> ''OPTIONS''"
    and "req_json req = Some j"
    and "destructure_feedback_text j = Some (Some (JString text))"
    and "text \<noteq> []"
    and "select_single e db = Some creditsData"
    and "credits_used creditsData < max_credits creditsData"
    and "\<not> insert_fails e"
  shows "fst (serve e db req) =
           \<lparr>status = 200,
            body = Json_result (new_id e) (sentiment (analyzeSentiment text))
              (confidence (analyzeSentiment text))
              (max_credits creditsData - (credits_used creditsData + 1))\<rparr>
       \<and> (\<not> update_fails e \<longrightarrow>
            credits_tbl (fst (snd (serve e db req)))
              = [creditsData\<lparr>credits_used := credits_used creditsData + 1\<rparr>])"
proof -
  have t: "truthy (Some (JString text))"
    using assms(4) by simp
  have tbl: "credits_tbl db = [creditsData]"
    using assms(5) by (rule select_single_Some)
  show ?thesis
    using assms(5-7) tbl
    by (simp add: serve_gate_reached [OF assms(1-3) t] insert_feedback_def update_credits_def
        Let_def)
qed

theorem credits_remaining_reported_witness:
  "fst (serve \<lparr>select_fails = False, insert_fails = False, update_fails = False, new_id = ''f1''\<rparr>
      (initial_store ''c'') (functions_invoke (JObject [(''feedback_text'', JString ''great'')])))
     = \<lparr>status = 200, body = Json_result ''f1'' positive (double_of (7 / 10)) 4\<rparr>
   \<and> credits_tbl (fst (snd (serve
        \<lparr>select_fails = False, insert_fails = False, update_fails = False, new_id = ''f1''\<rparr>
        (initial_store ''c'') (functions_invoke (JObject [(''feedback_text'', JString ''great'')])))))
     = [\<lparr>credits_id = ''c'', credits_used = 1, max_credits = 5\<rparr>]"
proof -
  have a: "analyzeSentiment ''great'' = \<lparr>sentiment = positive, confidence = double_of (7 / 10)\<rparr>"
    by code_simp
  show ?thesis
    using credits_remaining_reported [of "functions_invoke (JObject [(''feedback_text'', JString ''great'')])"
        "JObject [(''feedback_text'', JString ''great'')]" "''great''"
        "\<lparr>select_fails = False, insert_fails = False, update_fails = False, new_id = ''f1''\<rparr>"
        "initial_store ''c''" "\<lparr>credits_id = ''c'', credits_used = 0, max_credits = 5\<rparr>"]
    unfolding a
    by (simp add: functions_invoke_def initial_store_def select_single_def)
qed

text \<open>
  C7. When the update of the counter fails after the record is stored, the response is
  still the 200 result with id, sentiment, confidence and remaining credits, the same as
  when the update succeeds; the failure is only logged and the counter stays as it was.
\<close>

theorem update_failure_tolerated:
  assumes "req_method req \<noteq> ''OPTIONS''"
    and "req_json req = Some j"
    and "destructure_feedback_text j = Some (Some (JString text))"
    and "text \<noteq> []"
    and "select_single e db = Some creditsData"
    and "credits_used creditsData < max_credits creditsData"
    and "\<not> insert_fails e"
    and "update_fails e"
  shows "serve e db req =
           (\<lparr>status = 200,
             body = Json_result (new_id e) (sentiment (analyzeSentiment text))
               (confidence (analyzeSentiment text))
               (max_credits creditsData - (credits_used creditsData + 1))\<rparr>,
            db\<lparr>feedback_tbl := feedback_tbl db @
               [\<lparr>col_id = new_id e, col_feedback_text = text,
                 col_sentiment = sentiment (analyzeSentiment text),
                 col_confidence_score = confidence (analyzeSentiment text)\<rparr>]\<rparr>,
            [''Failed to update credits:''])
       \<and> fst (serve e db req) = fst (serve (e\<lparr>update_fails := False\<rparr>) db req)"
proof -
  have t: "truthy (Some (JString text))"
    using assms(4) by simp
  have sel: "select_single (e\<lparr>update_fails := False\<rparr>) db = Some creditsData"
    using assms(5) by (simp add: select_single_def)
  show ?thesis
    using assms(5-8) sel
    by (simp add: serve_gate_reached [OF assms(1-3) t] insert_feedback_def update_credits_def
        Let_def)
qed

theorem update_failure_tolerated_witness:
  "serve \<lparr>select_fails = False, insert_fails = False, update_fails = True, new_id = ''f1''\<rparr>
      (initial_store ''c'') (functions_invoke (JObject [(''feedback_text'', JString ''great'')]))
   = (\<lparr>status = 200, body = Json_result ''f1'' positive (double_of (7 / 10)) 4\<rparr>,
      \<lparr>credits_tbl = [\<lparr>credits_id = ''c'', credits_used = 0, max_credits = 5\<rparr>],
       feedback_tbl = [\<lparr>col_id = ''f1'', col_feedback_text = ''great'',
         col_sentiment = positive, col_confidence_score = double_of (7 / 10)\<rparr>]\<rparr>,
      [''Failed to update credits:''])"
proof -
  have a: "analyzeSentiment ''great'' = \<lparr>sentiment = positive, confidence = double_of (7 / 10)\<rparr>"
    by code_simp
  show ?thesis
    using update_failure_tolerated [of "functions_invoke (JObject [(''feedback_text'', JString ''great'')])"
        "JObject [(''feedback_text'', JString ''great'')]" "''great''"
        "\<lparr>select_fails = False, insert_fails = False, update_fails = True, new_id = ''f1''\<rparr>"
        "initial_store ''c''" "\<lparr>credits_id = ''c'', credits_used = 0, max_credits = 5\<rparr>"]
    unfolding a
    by (simp add: functions_invoke_def initial_store_def select_single_def)
qed

text \<open>
  C8. A body that is not JSON, or is \<open>null\<close>, makes the handler raise before any check,
  and the \<open>catch\<close> block answers with status 500, also though such a body has no text
  field. For every other body the checks run in order: a missing or otherwise falsy text
  gives status 400; a truthy text with an unreadable counter gives 500; with a counter at
  its cap 429; and a failing insert of a classified text gives 500. Each response is a
  JSON error object and the store is unchanged.
\<close>

theorem error_statuses:
  assumes "req_method req \<noteq> ''OPTIONS''"
  shows "(req_json req = None \<or> req_json req = Some JNull \<longrightarrow>
            serve e db req =
              (\<lparr>status = 500, body = Json_error ''Internal server error''\<rparr>, db, [''Error:'']))
       \<and> (req_json req = Some j \<and> destructure_feedback_text j = Some feedback_text \<longrightarrow>
            (\<not> truthy feedback_text \<longrightarrow>
               serve e db req =
                 (\<lparr>status = 400, body = Json_error ''Feedback text is required''\<rparr>, db, []))
          \<and> (truthy feedback_text \<and> select_single e db = None \<longrightarrow>
               serve e db req =
                 (\<lparr>status = 500, body = Json_error ''Unable to check credits''\<rparr>, db, []))
          \<and> (truthy feedback_text \<and> select_single e db = Some creditsData
               \<and> credits_used creditsData \<ge> max_credits creditsData \<longrightarrow>
               serve e db req =
                 (\<lparr>status = 429,
                   body = Json_error ''Credit limit reached. You have used all 5 credits.''\<rparr>,
                  db, []))
          \<and> (feedback_text = Some (JString text) \<and> text \<noteq> []
               \<and> select_single e db = Some creditsData
               \<and> credits_used creditsData < max_credits creditsData \<and> insert_fails e \<longrightarrow>
               serve e db req =
                 (\<lparr>status = 500, body = Json_error ''Failed to store feedback''\<rparr>, db, [])))"
proof (intro conjI impI)
  assume "req_json req = None \<or> req_json req = Some JNull"
  with assms have "serve e db req = internal_error db"
    by (rule serve_body_raises)
  then show "serve e db req =
      (\<lparr>status = 500, body = Json_error ''Internal server error''\<rparr>, db, [''Error:''])"
    by (simp add: internal_error_def error_response_def)
next
  assume b: "req_json req = Some j \<and> destructure_feedback_text j = Some feedback_text"
    and "\<not> truthy feedback_text"
  with assms show "serve e db req =
      (\<lparr>status = 400, body = Json_error ''Feedback text is required''\<rparr>, db, [])"
    by (simp add: serve_def error_response_def)
next
  assume b: "req_json req = Some j \<and> destructure_feedback_text j = Some feedback_text"
    and c: "truthy feedback_text \<and> select_single e db = None"
  from b c have g: "req_json req = Some j" "destructure_feedback_text j = Some feedback_text"
    "truthy feedback_text" by simp_all
  from c show "serve e db req =
      (\<lparr>status = 500, body = Json_error ''Unable to check credits''\<rparr>, db, [])"
    by (simp add: serve_gate_reached [OF assms g] error_response_def)
next
  assume b: "req_json req = Some j \<and> destructure_feedback_text j = Some feedback_text"
    and c: "truthy feedback_text \<and> select_single e db = Some creditsData
            \<and> credits_used creditsData \<ge> max_credits creditsData"
  from b c have g: "req_json req = Some j" "destructure_feedback_text j = Some feedback_text"
    "truthy feedback_text" by simp_all
  from c show "serve e db req =
      (\<lparr>status = 429,
        body = Json_error ''Credit limit reached. You have used all 5 credits.''\<rparr>, db, [])"
    by (simp add: serve_gate_reached [OF assms g] error_response_def)
next
  assume b: "req_json req = Some j \<and> destructure_feedback_text j = Some feedback_text"
    and c: "feedback_text = Some (JString text) \<and> text \<noteq> []
            \<and> select_single e db = Some creditsData
            \<and> credits_used creditsData < max_credits creditsData \<and> insert_fails e"
  from b c have g: "req_json req = Some j" "destructure_feedback_text j = Some feedback_text"
    "truthy feedback_text" by simp_all
  from c show "serve e db req =
      (\<lparr>status = 500, body = Json_error ''Failed to store feedback''\<rparr>, db, [])"
    by (simp add: serve_gate_reached [OF assms g] error_response_def insert_feedback_def)
qed

theorem error_statuses_witness:
  "serve \<lparr>select_fails = False, insert_fails = False, update_fails = False, new_id = ''f1''\<rparr>
      (initial_store ''c'') (functions_invoke JNull)
     = (\<lparr>status = 500, body = Json_error ''Internal server error''\<rparr>, initial_store ''c'',
        [''Error:''])
   \<and> serve \<lparr>select_fails = False, insert_fails = False, update_fails = False, new_id = ''f1''\<rparr>
      (initial_store ''c'') \<lparr>req_method = ''POST'', req_json = None\<rparr>
     = (\<lparr>status = 500, body = Json_error ''Internal server error''\<rparr>, initial_store ''c'',
        [''Error:''])
   \<and> serve \<lparr>select_fails = False, insert_fails = False, update_fails = False, new_id = ''f1''\<rparr>
      (initial_store ''c'') (functions_invoke (JObject [(''other'', JString ''great'')]))
     = (\<lparr>status = 400, body = Json_error ''Feedback text is required''\<rparr>, initial_store ''c'', [])
   \<and> serve \<lparr>select_fails = True, insert_fails = False, update_fails = False, new_id = ''f1''\<rparr>
      (initial_store ''c'') (functions_invoke (JObject [(''feedback_text'', JString ''great'')]))
     = (\<lparr>status = 500, body = Json_error ''Unable to check credits''\<rparr>, initial_store ''c'', [])
   \<and> serve \<lparr>select_fails = False, insert_fails = False, update_fails = False, new_id = ''f1''\<rparr>
      \<lparr>credits_tbl = [\<lparr>credits_id = ''c'', credits_used = 5, max_credits = 5\<rparr>], feedback_tbl = []\<rparr>
      (functions_invoke (JObject [(''feedback_text'', JString ''great'')]))
     = (\<lparr>status = 429,
         body = Json_error ''Credit limit reached. You have used all 5 credits.''\<rparr>,
        \<lparr>credits_tbl = [\<lparr>credits_id = ''c'', credits_used = 5, max_credits = 5\<rparr>], feedback_tbl = []\<rparr>,
        [])
   \<and> serve \<lparr>select_fails = False, insert_fails = True, update_fails = False, new_id = ''f1''\<rparr>
      (initial_store ''c'') (functions_invoke (JObject [(''feedback_text'', JString ''great'')]))
     = (\<lparr>status = 500, body = Json_error ''Failed to store feedback''\<rparr>, initial_store ''c'', [])"
  using
    error_statuses [of "functions_invoke JNull"
      "\<lparr>select_fails = False, insert_fails = False, update_fails = False, new_id = ''f1''\<rparr>"
      "initial_store ''c''"]
    error_statuses [of "\<lparr>req_method = ''POST'', req_json = None\<rparr>"
      "\<lparr>select_fails = False, insert_fails = False, update_fails = False, new_id = ''f1''\<rparr>"
      "initial_store ''c''"]
    error_statuses [of "functions_invoke (JObject [(''other'', JString ''great'')])"
      "\<lparr>select_fails = False, insert_fails = False, update_fails = False, new_id = ''f1''\<rparr>"
      "initial_store ''c''"
      "JObject [(''other'', JString ''great'')]" None]
    error_statuses [of "functions_invoke (JObject [(''feedback_text'', JString ''great'')])"
      "\<lparr>select_fails = True, insert_fails = False, update_fails = False, new_id = ''f1''\<rparr>"
      "initial_store ''c''"
      "JObject [(''feedback_text'', JString ''great'')]" "Some (JString ''great'')"]
    error_statuses [of "functions_invoke (JObject [(''feedback_text'', JString ''great'')])"
      "\<lparr>select_fails = False, insert_fails = False, update_fails = False, new_id = ''f1''\<rparr>"
      "\<lparr>credits_tbl = [\<lparr>credits_id = ''c'', credits_used = 5, max_credits = 5\<rparr>], feedback_tbl = []\<rparr>"
      "JObject [(''feedback_text'', JString ''great'')]" "Some (JString ''great'')"
      "\<lparr>credits_id = ''c'', credits_used = 5, max_credits = 5\<rparr>"]
    error_statuses [of "functions_invoke (JObject [(''feedback_text'', JString ''great'')])"
      "\<lparr>select_fails = False, insert_fails = True, update_fails = False, new_id = ''f1''\<rparr>"
      "initial_store ''c''"
      "JObject [(''feedback_text'', JString ''great'')]" "Some (JString ''great'')"
      "\<lparr>credits_id = ''c'', credits_used = 0, max_credits = 5\<rparr>" "''great''"]
  by (simp add: functions_invoke_def initial_store_def select_single_def)

text \<open>
  The status is not 400 for every body without the text field: the bodies \<open>null\<close> and
  those that are not JSON have none and are answered with 500.
\<close>

theorem error_statuses_counterexample:
  "body_text_field (req_json (functions_invoke JNull)) = None
   \<and> serve \<lparr>select_fails = False, insert_fails = False, update_fails = False, new_id = ''f1''\<rparr>
        (initial_store ''c'') (functions_invoke JNull)
      = (\<lparr>status = 500, body = Json_error ''Internal server error''\<rparr>, initial_store ''c'',
         [''Error:''])
   \<and> status (fst (serve
        \<lparr>select_fails = False, insert_fails = False, update_fails = False, new_id = ''f1''\<rparr>
        (initial_store ''c'') (functions_invoke JNull))) \<noteq> 400
   \<and> body_text_field (req_json \<lparr>req_method = ''POST'', req_json = None\<rparr>) = None
   \<and> status (fst (serve
        \<lparr>select_fails = False, insert_fails = False, update_fails = False, new_id = ''f1''\<rparr>
        (initial_store ''c'') \<lparr>req_method = ''POST'', req_json = None\<rparr>)) = 500"
  by (simp add: serve_def functions_invoke_def internal_error_def error_response_def)

end
